theory Spec2Isabelle
  imports
    Main
    "HOL-Library.Char_ord"
    "HOL-Library.List_Lexorder"
    "HOL-Library.Sublist"
    "HOL-Library.Multiset"
    "HOL-Library.Signed_Division"
    "HOL-Library.Word"
begin

unbundle bit_operations_syntax

section \<open>Strings\<close>

text \<open>
  A Go string is a sequence of bytes, and so is a HOL \<^typ>\<open>string\<close>: \<open>length\<close> is Go's
  \<open>len\<close>, \<open>take n s\<close> is \<open>s[:n]\<close>, and \<open><\<close> on strings (the lexicographic order over the
  byte values) is Go's string comparison.
\<close>

text \<open>
  \<open>strings.TrimSpace\<close> removes the leading and the trailing white space runes, as
  \<open>unicode.IsSpace\<close> defines them. \<open>spaceRunes\<close> lists their UTF-8 encodings: the six
  ASCII ones, U+0085, U+00A0, U+1680, U+2000 to U+200A, U+2028, U+2029, U+202F, U+205F
  and U+3000.
\<close>

definition spaceRunes :: "string list" where
  "spaceRunes =
    [[CHR 0x09], [CHR 0x0A], [CHR 0x0B], [CHR 0x0C], [CHR 0x0D], [CHR 0x20],
     [CHR 0xC2, CHR 0x85], [CHR 0xC2, CHR 0xA0],
     [CHR 0xE1, CHR 0x9A, CHR 0x80],
     [CHR 0xE2, CHR 0x80, CHR 0x80], [CHR 0xE2, CHR 0x80, CHR 0x81],
     [CHR 0xE2, CHR 0x80, CHR 0x82], [CHR 0xE2, CHR 0x80, CHR 0x83],
     [CHR 0xE2, CHR 0x80, CHR 0x84], [CHR 0xE2, CHR 0x80, CHR 0x85],
     [CHR 0xE2, CHR 0x80, CHR 0x86], [CHR 0xE2, CHR 0x80, CHR 0x87],
     [CHR 0xE2, CHR 0x80, CHR 0x88], [CHR 0xE2, CHR 0x80, CHR 0x89],
     [CHR 0xE2, CHR 0x80, CHR 0x8A],
     [CHR 0xE2, CHR 0x80, CHR 0xA8], [CHR 0xE2, CHR 0x80, CHR 0xA9],
     [CHR 0xE2, CHR 0x80, CHR 0xAF],
     [CHR 0xE2, CHR 0x81, CHR 0x9F],
     [CHR 0xE3, CHR 0x80, CHR 0x80]]"

text \<open>The white space rune a string starts with, and the one it ends with, if any.\<close>

definition leadingSpace :: "string \<Rightarrow> string option" where
  "leadingSpace s = find (\<lambda>p. prefix p s) spaceRunes"

definition trailingSpace :: "string \<Rightarrow> string option" where
  "trailingSpace s = find (\<lambda>p. suffix p s) spaceRunes"

function TrimLeft :: "string \<Rightarrow> string" where
  "TrimLeft s =
    (case leadingSpace s of
       None \<Rightarrow> s
     | Some p \<Rightarrow> TrimLeft (drop (length p) s))"
  by pat_completeness auto
termination
proof (relation "measure length")
  show "wf (measure length)" by simp
next
  fix s p
  assume h: "leadingSpace s = Some p"
  then have "0 < length p"
    unfolding leadingSpace_def
    by (auto simp: find_Some_iff spaceRunes_def nth_Cons' split: if_splits)
  moreover from h have "prefix p s"
    unfolding leadingSpace_def by (auto simp: find_Some_iff)
  then have "length p \<le> length s"
    by (rule prefix_length_le)
  ultimately have "length s - length p < length s"
    by arith
  then show "(drop (length p) s, s) \<in> measure length"
    by simp
qed

declare TrimLeft.simps [simp del]

function TrimRight :: "string \<Rightarrow> string" where
  "TrimRight s =
    (case trailingSpace s of
       None \<Rightarrow> s
     | Some p \<Rightarrow> TrimRight (take (length s - length p) s))"
  by pat_completeness auto
termination
proof (relation "measure length")
  show "wf (measure length)" by simp
next
  fix s p
  assume h: "trailingSpace s = Some p"
  then have "0 < length p"
    unfolding trailingSpace_def
    by (auto simp: find_Some_iff spaceRunes_def nth_Cons' split: if_splits)
  moreover from h have "suffix p s"
    unfolding trailingSpace_def by (auto simp: find_Some_iff)
  then have "length p \<le> length s"
    by (rule suffix_length_le)
  ultimately have "length s - length p < length s"
    by arith
  then show "(take (length s - length p) s, s) \<in> measure length"
    by simp
qed

declare TrimRight.simps [simp del]

definition TrimSpace :: "string \<Rightarrow> string" where
  "TrimSpace s = TrimRight (TrimLeft s)"

text \<open>
  \<open>strings.ToUpper\<close> maps the bytes \<open>a\<close> to \<open>z\<close> to \<open>A\<close> to \<open>Z\<close> when the string is all
  ASCII, and otherwise returns \<open>strings.Map(unicode.ToUpper, s)\<close>. The Unicode case tables
  belong to the Go library; that second path is the parameter \<open>mapUpper\<close>.
\<close>

definition isASCII :: "string \<Rightarrow> bool" where
  "isASCII s = list_all (\<lambda>c. (of_char c :: nat) < 0x80) s"

definition upperByte :: "char \<Rightarrow> char" where
  "upperByte c =
    (if CHR ''a'' \<le> c \<and> c \<le> CHR ''z'' then char_of ((of_char c :: nat) - 32) else c)"

definition ToUpper :: "(string \<Rightarrow> string) \<Rightarrow> string \<Rightarrow> string" where
  "ToUpper mapUpper s = (if isASCII s then map upperByte s else mapUpper s)"

section \<open>Check status\<close>

text \<open>The \<open>iota\<close> constants of \<open>CheckStatus\<close>, and their integer values.\<close>

datatype CheckStatus = Running | Fail | Pass | Skipped


definition normalizeStatus :: "(string \<Rightarrow> string) \<Rightarrow> string \<Rightarrow> CheckStatus" where
  "normalizeStatus mapUpper raw =
    (let raw = ToUpper mapUpper (TrimSpace raw) in
     if raw = ''SUCCESS'' \<or> raw = ''PASS'' then Pass
     else if raw = ''FAILURE'' \<or> raw = ''FAIL'' \<or> raw = ''ERROR'' \<or> raw = ''TIMED_OUT''
       \<or> raw = ''ACTION_REQUIRED'' \<or> raw = ''STARTUP_FAILURE'' then Fail
     else if raw = ''IN_PROGRESS'' \<or> raw = ''RUNNING'' \<or> raw = ''PENDING'' \<or> raw = ''QUEUED''
       \<or> raw = ''WAITING'' \<or> raw = ''REQUESTED'' then Running
     else if raw = ''SKIPPED'' \<or> raw = ''CANCELLED'' \<or> raw = ''NEUTRAL'' \<or> raw = ''STALE''
       then Skipped
     else if raw = '''' then Running
     else Running)"







section \<open>Time and durations\<close>

text \<open>
  A \<open>time.Time\<close> is an instant, counted here in nanoseconds from the zero value
  \<open>time.Time{}\<close> (0001-01-01T00:00:00Z); a \<open>time.Duration\<close> is a signed 64-bit
  count of nanoseconds. \<open>Time.Sub\<close> saturates at the ends of that range.
\<close>

type_synonym Time = int
type_synonym Duration = int

definition zeroTime :: Time where
  "zeroTime = 0"

definition IsZero :: "Time \<Rightarrow> bool" where
  "IsZero t \<longleftrightarrow> t = 0"

definition maxDuration :: Duration where
  "maxDuration = 2 ^ 63 - 1"

definition minDuration :: Duration where
  "minDuration = - (2 ^ 63)"

definition Sub :: "Time \<Rightarrow> Time \<Rightarrow> Duration" where
  "Sub t u =
    (let d = t - u in
     if d > maxDuration then maxDuration
     else if d < minDuration then minDuration
     else d)"

text \<open>
  \<open>int(d.Seconds())\<close>: the duration in seconds, truncated towards zero. \<open>Seconds\<close>
  computes a \<open>float64\<close>; its rounding is left out, the quotient is taken as exact.
\<close>

definition wholeSeconds :: "Duration \<Rightarrow> int" where
  "wholeSeconds d = d sdiv 1000000000"

text \<open>The verbs \<open>%d\<close> and \<open>%02d\<close> of \<open>fmt.Sprintf\<close> on an \<open>int\<close>.\<close>

definition digitChar :: "nat \<Rightarrow> char" where
  "digitChar n = char_of (48 + n)"

function showNat :: "nat \<Rightarrow> string" where
  "showNat n = (if n < 10 then [digitChar n] else showNat (n div 10) @ [digitChar (n mod 10)])"
  by pat_completeness auto
termination
  by (relation "measure id") auto

declare showNat.simps [simp del]

definition showInt :: "int \<Rightarrow> string" where
  "showInt i = (if i < 0 then CHR ''-'' # showNat (nat (- i)) else showNat (nat i))"

definition showInt02 :: "int \<Rightarrow> string" where
  "showInt02 i = (if 0 \<le> i \<and> i < 10 then CHR ''0'' # showInt i else showInt i)"

text \<open>Go's \<open>/\<close> and \<open>%\<close> on \<open>int\<close> truncate towards zero: \<open>sdiv\<close> and \<open>smod\<close>.\<close>

definition formatDuration :: "int \<Rightarrow> string" where
  "formatDuration totalSeconds =
    (let minutes = totalSeconds sdiv 60;
         seconds = totalSeconds smod 60
     in if minutes > 0 then showInt minutes @ ''m'' @ showInt02 seconds @ ''s''
        else showInt seconds @ ''s'')"

text \<open>
  \<open>parseDuration\<close> reads two things from outside: \<open>time.Parse(time.RFC3339, s)\<close>, the
  parameter \<open>parse\<close> (\<open>None\<close> when it returns an error), and the clock
  \<open>time.Now().UTC()\<close>, the parameter \<open>now\<close>.
\<close>

definition parseDuration ::
  "(string \<Rightarrow> Time option) \<Rightarrow> Time \<Rightarrow> string \<Rightarrow> string \<Rightarrow> string \<times> Time \<times> bool" where
  "parseDuration parse now startedAt completedAt =
    (if startedAt = '''' then (''-'', zeroTime, False)
     else case parse startedAt of
       None \<Rightarrow> (''-'', zeroTime, False)
     | Some start \<Rightarrow>
         (let (end, completed) =
                (if completedAt \<noteq> '''' then
                   (case parse completedAt of
                      Some e \<Rightarrow> (e, True)
                    | None \<Rightarrow> (zeroTime, False))
                 else (zeroTime, False));
              end = (if \<not> completed then now else end);
              delta = wholeSeconds (Sub end start);
              delta = (if delta < 0 then 0 else delta)
          in (formatDuration delta, start, completed)))"

section \<open>Checks\<close>

record ghCheckItem =
  Typename :: string
  Name :: string
  Context :: string
  Status :: string
  Conclusion :: string
  State :: string
  StartedAt :: string
  CompletedAt :: string
  DetailsURL :: string
  TargetURL :: string
  WorkflowName :: string

record ghPRResponse =
  Title :: string
  HeadRefName :: string
  URL :: string
  StatusCheckRollup :: "ghCheckItem list"

record Check =
  Name :: string
  Status :: CheckStatus
  Duration :: string
  DetailsURL :: string
  StartedAt :: Time
  Completed :: bool

record PRData =
  Title :: string
  HeadRefName :: string
  URL :: string
  Checks :: "Check list"

text \<open>The body of the loop of \<open>fetchPRData\<close>: one upstream item becomes one \<open>Check\<close>.\<close>

definition convertItem ::
  "(string \<Rightarrow> string) \<Rightarrow> (string \<Rightarrow> Time option) \<Rightarrow> Time \<Rightarrow> ghCheckItem \<Rightarrow> Check" where
  "convertItem mapUpper parse now item =
    (let name = ghCheckItem.Name item;
         name = (if name = '''' then Context item else name);
         name = (if name = '''' then ''unknown'' else name);
         name = (if WorkflowName item \<noteq> ''''
                 then name @ '' ('' @ WorkflowName item @ '')'' else name);
         status =
           (if Conclusion item \<noteq> '''' then normalizeStatus mapUpper (Conclusion item)
            else if ghCheckItem.Status item \<noteq> ''''
              then normalizeStatus mapUpper (ghCheckItem.Status item)
            else normalizeStatus mapUpper (State item));
         completedAt = CompletedAt item;
         completedAt = (if prefix ''0001'' completedAt then '''' else completedAt);
         forceCompleted =
           (completedAt = '''' \<and> Typename item = ''StatusContext'' \<and> status \<noteq> Running);
         (dur, startedAt, completed) =
           parseDuration parse now (ghCheckItem.StartedAt item) completedAt;
         (dur, completed) = (if forceCompleted then (''???'', True) else (dur, completed));
         detailsURL = ghCheckItem.DetailsURL item;
         detailsURL = (if detailsURL = '''' then TargetURL item else detailsURL)
     in \<lparr>Name = name, Status = status, Duration = dur, DetailsURL = detailsURL,
         StartedAt = startedAt, Completed = completed\<rparr>)"


section \<open>The sort of the Go library\<close>




































































section \<open>The terminal model of ui.go\<close>

record PRSummary =
  Repo :: string
  Number :: int
  Title :: string
  URL :: string
  UpdatedAt :: string

datatype viewMode = modeSelecting | modeViewing





record model =
  mode :: viewMode
  repo :: string
  prNumber :: string
  interval :: int
  prData :: "PRData option"
  err :: "string option"
  selected :: int
  width :: int
  height :: int
  prs :: "PRSummary list"
  loading :: bool

definition newModel :: "string \<Rightarrow> string \<Rightarrow> int \<Rightarrow> model" where
  "newModel r n i =
    \<lparr>mode = modeViewing, repo = r, prNumber = n, interval = i, prData = None, err = None,
     selected = 0, width = 0, height = 0, prs = [], loading = False\<rparr>"





text \<open>The number of rows of the collection the current mode selects in.\<close>

definition activeCount :: "model \<Rightarrow> int" where
  "activeCount m =
    (if mode m = modeSelecting then int (length (prs m))
     else case prData m of Some d \<Rightarrow> int (length (Checks d)) | None \<Rightarrow> 0)"



text \<open>
  The rows \<open>View\<close> has room for: \<open>maxRows := m.height - 8\<close>, and 1 when that is less.
\<close>

definition maxRows :: "int \<Rightarrow> int" where
  "maxRows h = (if h - 8 < 1 then 1 else h - 8)"

section \<open>The session engine with filter and scroll offset\<close>

text \<open>
  Modelled from the spec: the revision of ui.go that has the hide-skipped flag, the
  scroll offset and the way back to the picker is not among the sources; ui_test.go
  exercises it (\<open>hideSkipped\<close>, \<open>scrollOff\<close>, \<open>canGoBack\<close>, \<open>filteredChecks\<close>), and the
  \<open>model\<close> above is the revision before it. The state is the specification's
  SessionState: the fields of \<open>model\<close> and the three new ones.
\<close>

record session = model +
  scrollOff :: int
  hideSkipped :: bool
  canGoBack :: bool

text \<open>
  Modelled from the spec: the two constructors. A session built with a target starts in
  Viewing and cannot go back; one built without starts in Selecting, loading, and can.
  The hide-skipped flag defaults to true.
\<close>

definition newSession :: "string \<Rightarrow> string \<Rightarrow> int \<Rightarrow> session" where
  "newSession r n i =
    \<lparr>mode = modeViewing, repo = r, prNumber = n, interval = i, prData = None, err = None,
     selected = 0, width = 0, height = 0, prs = [], loading = False,
     scrollOff = 0, hideSkipped = True, canGoBack = False\<rparr>"

definition newSelectSession :: "int \<Rightarrow> session" where
  "newSelectSession i =
    \<lparr>mode = modeSelecting, repo = '''', prNumber = '''', interval = i, prData = None,
     err = None, selected = 0, width = 0, height = 0, prs = [], loading = True,
     scrollOff = 0, hideSkipped = True, canGoBack = True\<rparr>"

text \<open>
  Modelled from the spec: \<open>filteredChecks()\<close>, the full check list when hide-skipped is
  false, otherwise the checks whose status is not Skipped, in their order; no checks
  while no PRData is held.
\<close>

fun dropSkipped :: "Check list \<Rightarrow> Check list" where
  "dropSkipped [] = []"
| "dropSkipped (c # cs) = (if Status c = Skipped then dropSkipped cs else c # dropSkipped cs)"

definition filteredChecks :: "session \<Rightarrow> Check list" where
  "filteredChecks s =
    (case prData s of
       None \<Rightarrow> []
     | Some d \<Rightarrow> if hideSkipped s then dropSkipped (Checks d) else Checks d)"

text \<open>
  Modelled from the spec: \<open>visibleRows\<close> is the height minus the fixed chrome rows,
  at least 1. The chrome is the 8 lines \<open>View\<close> counts (\<open>maxRows\<close>).
\<close>

definition visibleRows :: "session \<Rightarrow> int" where
  "visibleRows s = maxRows (height s)"

text \<open>
  Modelled from the spec: the scroll-offset maintenance. If the selection index is at
  least scrollOffset + visibleRows, scrollOffset becomes index - visibleRows + 1; if the
  index is below scrollOffset, scrollOffset becomes the index; otherwise it is unchanged.
\<close>

definition adjustScroll :: "session \<Rightarrow> session" where
  "adjustScroll s =
    (if selected s \<ge> scrollOff s + visibleRows s
       then s\<lparr>scrollOff := selected s - visibleRows s + 1\<rparr>
     else if selected s < scrollOff s then s\<lparr>scrollOff := selected s\<rparr>
     else s)"

text \<open>
  Modelled from the spec: a change of the selection index. The maintenance applies after
  every selection-index change in Viewing; an index that stays the same is no change.
\<close>

definition setSelected :: "session \<Rightarrow> int \<Rightarrow> session" where
  "setSelected s i =
    (if i = selected s then s
     else if mode s = modeViewing then adjustScroll (s\<lparr>selected := i\<rparr>)
     else s\<lparr>selected := i\<rparr>)"

text \<open>
  Modelled from the spec: the input events of the engine and the follow-up actions it
  emits. A fetch result is \<open>Inl\<close> the error message or \<open>Inr\<close> the data.
\<close>

datatype Event =
    MoveDown
  | MoveUp
  | Enter
  | GoBack
  | ManualRefresh
  | ToggleFilter
  | TimerTick
  | FetchListResult "string + PRSummary list"
  | FetchDataResult "string + PRData"
  | ViewportResize int int
  | Terminate

datatype Action = FetchList | FetchData | StartTimer | OpenURL string | TerminateSession

text \<open>The length of the collection the current mode navigates.\<close>

definition navCount :: "session \<Rightarrow> int" where
  "navCount s =
    (if mode s = modeSelecting then int (length (prs s)) else int (length (filteredChecks s)))"

text \<open>
  Modelled from the spec: the transitions of the state machine, one equation per event.
  The clamp of a fetch-data result is written as the earlier \<open>Update\<close> has it (an index
  at or past the count becomes count - 1), against the filtered list. Enter in Selecting
  takes the target from the selected summary and does nothing when the index is outside
  the list.
\<close>

fun step :: "session \<Rightarrow> Event \<Rightarrow> session \<times> Action list" where
  "step s MoveDown =
    (if selected s < navCount s - 1 then (setSelected s (selected s + 1), []) else (s, []))"
| "step s MoveUp =
    (if selected s > 0 then (setSelected s (selected s - 1), []) else (s, []))"
| "step s Enter =
    (if mode s = modeSelecting then
       (if 0 \<le> selected s \<and> selected s < int (length (prs s)) then
          (let pr = prs s ! nat (selected s) in
           (s\<lparr>repo := Repo pr, prNumber := showInt (Number pr), mode := modeViewing,
               selected := 0, scrollOff := 0, prData := None, err := None\<rparr>,
            [FetchData, StartTimer]))
        else (s, []))
     else
       (if 0 \<le> selected s \<and> selected s < int (length (filteredChecks s)) then
          (let check = filteredChecks s ! nat (selected s) in
           (s, if DetailsURL check \<noteq> '''' then [OpenURL (DetailsURL check)] else []))
        else (s, [])))"
| "step s GoBack =
    (if mode s = modeViewing \<and> canGoBack s then
       (s\<lparr>mode := modeSelecting, selected := 0, scrollOff := 0, prData := None,
           loading := True\<rparr>, [FetchList])
     else (s, []))"
| "step s ManualRefresh =
    (if mode s = modeSelecting then (s\<lparr>loading := True\<rparr>, [FetchList])
     else (s, [FetchData]))"
| "step s ToggleFilter =
    (if mode s = modeViewing then
       (s\<lparr>hideSkipped := \<not> hideSkipped s, selected := 0, scrollOff := 0\<rparr>, [])
     else (s, []))"
| "step s TimerTick =
    (if mode s = modeViewing then (s, [FetchData, StartTimer]) else (s, []))"
| "step s (FetchListResult r) =
    (let s = s\<lparr>loading := False\<rparr> in
     case r of
       Inl e \<Rightarrow> (s\<lparr>err := Some e\<rparr>, [])
     | Inr ps \<Rightarrow> (setSelected (s\<lparr>prs := ps, err := None\<rparr>) 0, []))"
| "step s (FetchDataResult r) =
    (case r of
       Inl e \<Rightarrow> (s\<lparr>err := Some e\<rparr>, [])
     | Inr d \<Rightarrow>
         (let s = s\<lparr>prData := Some d, err := None\<rparr>;
              n = int (length (filteredChecks s))
          in (if n > 0 then (if selected s \<ge> n then setSelected s (n - 1) else s)
              else setSelected s 0,
              [])))"
| "step s (ViewportResize w h) = (s\<lparr>width := w, height := h\<rparr>, [])"
| "step s Terminate = (s, [TerminateSession])"

text \<open>A run of events from a state.\<close>

fun steps :: "session \<Rightarrow> Event list \<Rightarrow> session" where
  "steps s [] = s"
| "steps s (e # es) = steps (fst (step s e)) es"

section \<open>Truncation\<close>

text \<open>\<open>truncate\<close> of ui.go: \<open>maxWidth\<close> is a Go \<open>int\<close>.\<close>

definition truncate :: "string \<Rightarrow> int \<Rightarrow> string" where
  "truncate s maxWidth =
    (if int (length s) > maxWidth \<and> maxWidth > 0 then take (nat maxWidth) s else s)"

section \<open>Sample inputs\<close>

text \<open>A parser that knows two timestamps, and a status context record, for concrete runs.\<close>

definition sampleParse :: "string \<Rightarrow> Time option" where
  "sampleParse s =
    (if s = ''2024-01-01T00:00:00Z'' then Some 63839664000000000000
     else if s = ''2024-01-01T00:02:05Z'' then Some 63839664125000000000
     else None)"

definition sampleItem :: ghCheckItem where
  "sampleItem =
    \<lparr>Typename = ''StatusContext'', ghCheckItem.Name = '''', Context = ''ci/jenkins'',
     ghCheckItem.Status = '''', Conclusion = '''', State = ''SUCCESS'',
     ghCheckItem.StartedAt = ''2024-01-01T00:00:00Z'',
     CompletedAt = ''0001-01-01T00:00:00Z'', ghCheckItem.DetailsURL = '''',
     TargetURL = ''https://ci.example/1'', WorkflowName = ''''\<rparr>"


text \<open>
  Sessions for concrete runs: six passing checks in a viewport of 12 lines (4 rows),
  scrolled to the last check and then resized to 30 lines; the same checks before the
  scrolling, in 12 lines and in 30; and a session that holds one failed, one passed and
  one skipped check.
\<close>

definition passCheck :: "string \<Rightarrow> Check" where
  "passCheck n =
    \<lparr>Name = n, Status = Pass, Duration = ''1s'', DetailsURL = [], StartedAt = 0,
     Completed = True\<rparr>"

definition sixChecks :: PRData where
  "sixChecks =
    \<lparr>PRData.Title = ''t'', PRData.HeadRefName = ''b'', PRData.URL = [],
     Checks = map passCheck [''a'', ''b'', ''c'', ''d'', ''e'', ''f'']\<rparr>"

definition staleScroll :: session where
  "staleScroll =
    steps (newSession ''o/r'' ''1'' 5)
      [ViewportResize 80 12, FetchDataResult (Inr sixChecks),
       MoveDown, MoveDown, MoveDown, MoveDown, MoveDown, ViewportResize 80 30]"


definition windowSession :: session where
  "windowSession =
    steps (newSession ''o/r'' ''1'' 5)
      [ViewportResize 80 12, FetchDataResult (Inr sixChecks), MoveDown, MoveDown, MoveDown]"

definition fittingSession :: session where
  "fittingSession =
    steps (newSession ''o/r'' ''1'' 5) [ViewportResize 80 30, FetchDataResult (Inr sixChecks)]"

definition mixedChecks :: PRData where
  "mixedChecks =
    \<lparr>PRData.Title = ''t'', PRData.HeadRefName = ''b'', PRData.URL = [],
     Checks =
       [(passCheck ''lint'')\<lparr>Status := Fail\<rparr>, passCheck ''build'',
        (passCheck ''skip1'')\<lparr>Status := Skipped\<rparr>]\<rparr>"

definition filteredSession :: session where
  "filteredSession =
    (newSession ''o/r'' ''1'' 5)\<lparr>prData := Some mixedChecks, selected := 1, scrollOff := 1\<rparr>"





section \<open>Status normalisation\<close>


























section \<open>Field precedence\<close>

text \<open>
  C6. The status string of an upstream record that gets normalised is its conclusion when
  that is not empty, otherwise its status when that is not empty, otherwise its state.
\<close>

theorem status_precedence:
  "Status (convertItem mapUpper parse now item) =
     normalizeStatus mapUpper
       (if Conclusion item \<noteq> '''' then Conclusion item
        else if ghCheckItem.Status item \<noteq> '''' then ghCheckItem.Status item
        else State item)"
  by (simp add: convertItem_def Let_def split_beta)

section \<open>Truncation to a width\<close>

text \<open>
  C9. \<open>truncate s maxWidth\<close> is \<open>s\<close> whenever \<open>maxWidth\<close> is 0 or negative or the
  byte length of \<open>s\<close> is at most \<open>maxWidth\<close>; otherwise it is the first \<open>maxWidth\<close> bytes
  of \<open>s\<close>. A width of 0 does not truncate, and a multi-byte character can be split:
  the two bytes of U+00E9 cut to width 1 leave the first byte.
\<close>

theorem truncate_bytes:
  "(maxWidth \<le> 0 \<or> int (length s) \<le> maxWidth \<longrightarrow> truncate s maxWidth = s)
   \<and> (0 < maxWidth \<and> maxWidth < int (length s) \<longrightarrow>
        truncate s maxWidth = take (nat maxWidth) s
        \<and> int (length (truncate s maxWidth)) = maxWidth)
   \<and> truncate s 0 = s
   \<and> truncate [CHR 0xC3, CHR 0xA9] 1 = [CHR 0xC3]"
  by (auto simp: truncate_def)

theorem truncate_bytes_witness:
  "truncate ''hello'' 0 = ''hello'' \<and> truncate ''hello'' (- 3) = ''hello''
   \<and> truncate ''hello'' 5 = ''hello'' \<and> truncate ''hello world'' 5 = ''hello''"
  using truncate_bytes [of 0 "''hello''"] truncate_bytes [of "- 3" "''hello''"]
    truncate_bytes [of 5 "''hello''"] truncate_bytes [of 5 "''hello world''"]
  by simp

section \<open>Durations\<close>

lemma showNat_no_minus: "CHR ''-'' \<notin> set (showNat n)"
proof (induction n rule: showNat.induct)
  case (1 n)
  have d: "digitChar k \<noteq> CHR ''-''" if "k < 10" for k
  proof -
    from that have "k \<in> {0, 1, 2, 3, 4, 5, 6, 7, 8, 9}" by auto
    then show ?thesis by (auto simp: digitChar_def char_of_def)
  qed
  show ?case
  proof (cases "n < 10")
    case True
    then show ?thesis using d [of n] by (subst showNat.simps) simp
  next
    case False
    then show ?thesis using 1 d [of "n mod 10"] by (subst showNat.simps) simp
  qed
qed

lemma sdiv_nonneg: "0 \<le> (n::int) \<Longrightarrow> 0 < k \<Longrightarrow> n sdiv k = n div k"
  by (cases "n = 0") (simp_all add: signed_divide_int_def)

lemma sdiv_neg: "(n::int) < 0 \<Longrightarrow> 0 < k \<Longrightarrow> n sdiv k \<le> 0"
  by (simp add: signed_divide_int_def sgn_if div_int_pos_iff)

lemma formatDuration_nonneg: "0 \<le> n \<Longrightarrow> CHR ''-'' \<notin> set (formatDuration n)"
proof -
  assume n: "0 \<le> n"
  then have "0 \<le> n sdiv 60" by (simp add: sdiv_nonneg)
  moreover from n have "0 \<le> n smod 60" by (simp add: smod_int_compares)
  ultimately show ?thesis
    by (simp add: formatDuration_def Let_def showInt_def showInt02_def showNat_no_minus)
qed

lemma formatDuration_zero: "formatDuration 0 = ''0s''"
  by code_simp

lemma wholeSeconds_Sub_neg: "e < st \<Longrightarrow> wholeSeconds (Sub e st) \<le> 0"
proof -
  assume "e < st"
  then have "Sub e st < 0"
    by (simp add: Sub_def Let_def maxDuration_def minDuration_def)
  then show ?thesis
    by (simp add: wholeSeconds_def sdiv_neg)
qed

text \<open>
  C10. \<open>parseDuration\<close> never reports a negative elapsed time: when the end precedes
  the start the duration is \<open>0s\<close>, and the duration string never holds a minus sign.
  When \<open>startedAt\<close> is empty or does not parse, the result is the placeholder \<open>-\<close>,
  the zero time and not completed. When \<open>completedAt\<close> is present but does not parse,
  the check is not completed and the duration is measured against the clock.
\<close>

theorem parseDuration_cases:
  "(startedAt = '''' \<or> parse startedAt = None \<longrightarrow>
      parseDuration parse now startedAt completedAt = (''-'', zeroTime, False))
   \<and> (startedAt \<noteq> '''' \<and> parse startedAt = Some st \<longrightarrow>
        CHR ''-'' \<notin> set (fst (parseDuration parse now startedAt completedAt))
      \<and> (completedAt \<noteq> '''' \<and> parse completedAt = Some e \<longrightarrow>
            parseDuration parse now startedAt completedAt =
              (formatDuration (max 0 (wholeSeconds (Sub e st))), st, True)
          \<and> (e < st \<longrightarrow> fst (parseDuration parse now startedAt completedAt) = ''0s''))
      \<and> (completedAt = '''' \<or> parse completedAt = None \<longrightarrow>
            parseDuration parse now startedAt completedAt =
              (formatDuration (max 0 (wholeSeconds (Sub now st))), st, False)
          \<and> (now < st \<longrightarrow> fst (parseDuration parse now startedAt completedAt) = ''0s'')))"
proof -
  have a: "parseDuration parse now startedAt completedAt = (''-'', zeroTime, False)"
    if "startedAt = '''' \<or> parse startedAt = None"
    using that by (auto simp: parseDuration_def)
  have b: "parseDuration parse now startedAt completedAt =
      (formatDuration (max 0 (wholeSeconds (Sub e st))), st, True)"
    if "startedAt \<noteq> ''''" "parse startedAt = Some st" "completedAt \<noteq> ''''"
      "parse completedAt = Some e"
    using that by (simp add: parseDuration_def Let_def max_def)
  have c: "parseDuration parse now startedAt completedAt =
      (formatDuration (max 0 (wholeSeconds (Sub now st))), st, False)"
    if "startedAt \<noteq> ''''" "parse startedAt = Some st"
      "completedAt = '''' \<or> parse completedAt = None"
    using that by (auto simp: parseDuration_def Let_def max_def)
  have d: "CHR ''-'' \<notin> set (fst (parseDuration parse now startedAt completedAt))"
    if h: "startedAt \<noteq> ''''" "parse startedAt = Some st"
  proof (cases "completedAt = '''' \<or> parse completedAt = None")
    case True
    then show ?thesis using c [OF h] by (simp add: formatDuration_nonneg)
  next
    case False
    then obtain e' where "completedAt \<noteq> ''''" "parse completedAt = Some e'" by auto
    then show ?thesis
      by (simp add: parseDuration_def Let_def h formatDuration_nonneg)
  qed
  show ?thesis
    using a b c d wholeSeconds_Sub_neg [of e st] wholeSeconds_Sub_neg [of now st]
    by (auto simp: max_def formatDuration_zero)
qed

theorem parseDuration_cases_witness:
  "parseDuration sampleParse 63839664125999999999 '''' ''2024-01-01T00:02:05Z''
     = (''-'', zeroTime, False)
   \<and> parseDuration sampleParse 63839664125999999999 ''yesterday'' ''''
     = (''-'', zeroTime, False)
   \<and> parseDuration sampleParse 63839664125999999999
       ''2024-01-01T00:02:05Z'' ''2024-01-01T00:00:00Z''
     = (''0s'', 63839664125000000000, True)
   \<and> parseDuration sampleParse 63839664125999999999
       ''2024-01-01T00:00:00Z'' ''2024-01-01T00:02:05Z''
     = (''2m05s'', 63839664000000000000, True)
   \<and> parseDuration sampleParse 63839664125999999999 ''2024-01-01T00:00:00Z'' ''soon''
     = (''2m05s'', 63839664000000000000, False)
   \<and> parseDuration sampleParse 63839664000000000000 ''2024-01-01T00:02:05Z'' ''''
     = (''0s'', 63839664125000000000, False)"
proof -
  have f: "formatDuration 125 = ''2m05s''" "formatDuration 0 = ''0s''"
    by code_simp+
  have w: "wholeSeconds (Sub 63839664125999999999 63839664000000000000) = 125"
    "wholeSeconds (Sub 63839664125000000000 63839664000000000000) = 125"
    "wholeSeconds (Sub 63839664000000000000 63839664125000000000) = - 125"
    by (simp_all add: wholeSeconds_def Sub_def maxDuration_def minDuration_def)
  show ?thesis
    using
      parseDuration_cases [where parse = sampleParse and startedAt = "''''"
        and now = 63839664125999999999 and completedAt = "''2024-01-01T00:02:05Z''"]
      parseDuration_cases [where parse = sampleParse and startedAt = "''yesterday''"
        and now = 63839664125999999999 and completedAt = "''''"]
      parseDuration_cases [where parse = sampleParse and startedAt = "''2024-01-01T00:02:05Z''"
        and now = 63839664125999999999 and completedAt = "''2024-01-01T00:00:00Z''"
        and st = 63839664125000000000 and e = 63839664000000000000]
      parseDuration_cases [where parse = sampleParse and startedAt = "''2024-01-01T00:00:00Z''"
        and now = 63839664125999999999 and completedAt = "''2024-01-01T00:02:05Z''"
        and st = 63839664000000000000 and e = 63839664125000000000]
      parseDuration_cases [where parse = sampleParse and startedAt = "''2024-01-01T00:00:00Z''"
        and now = 63839664125999999999 and completedAt = "''soon''"
        and st = 63839664000000000000]
      parseDuration_cases [where parse = sampleParse and startedAt = "''2024-01-01T00:02:05Z''"
        and now = 63839664000000000000 and completedAt = "''''"
        and st = 63839664125000000000]
    by (simp add: sampleParse_def f w)
qed

section \<open>Status contexts without a completion time\<close>

lemma normalizeStatus_samples: "normalizeStatus id ''SUCCESS'' = Pass" "normalizeStatus id ''pending'' = Running"
  by code_simp+

text \<open>
  C7. For a record of the StatusContext kind whose completion timestamp is absent (empty,
  or starting with \<open>0001\<close>) and whose normalised status is not Running, the check is
  completed and its duration is the placeholder \<open>???\<close>; every other record keeps the
  duration and the completed flag that \<open>parseDuration\<close> computes from its timestamps.
\<close>

theorem statusContext_forced:
  "(let completedAt = (if prefix ''0001'' (CompletedAt item) then [] else CompletedAt item);
        c = convertItem mapUpper parse now item;
        p = parseDuration parse now (ghCheckItem.StartedAt item) completedAt
    in (Typename item = ''StatusContext''
          \<and> (CompletedAt item = [] \<or> prefix ''0001'' (CompletedAt item))
          \<and> Status c \<noteq> Running
        \<longrightarrow> Completed c \<and> Duration c = ''???'')
     \<and> (\<not> (Typename item = ''StatusContext''
            \<and> (CompletedAt item = [] \<or> prefix ''0001'' (CompletedAt item))
            \<and> Status c \<noteq> Running)
        \<longrightarrow> Duration c = fst p \<and> Completed c = snd (snd p)))"
  by (simp add: convertItem_def Let_def split_beta)

theorem statusContext_forced_witness:
  "Completed (convertItem id sampleParse 63839664125999999999 sampleItem)
   \<and> Duration (convertItem id sampleParse 63839664125999999999 sampleItem) = ''???''
   \<and> Duration (convertItem id sampleParse 63839664125999999999
        (sampleItem\<lparr>State := ''pending''\<rparr>)) = ''2m05s''
   \<and> \<not> Completed (convertItem id sampleParse 63839664125999999999
        (sampleItem\<lparr>State := ''pending''\<rparr>))"
proof -
  have f: "formatDuration 125 = ''2m05s''"
    by code_simp
  have w: "wholeSeconds (Sub 63839664125999999999 63839664000000000000) = 125"
    by (simp add: wholeSeconds_def Sub_def maxDuration_def minDuration_def)
  have s: "Status (convertItem id sampleParse 63839664125999999999 sampleItem) = Pass"
     "Status (convertItem id sampleParse 63839664125999999999
        (sampleItem\<lparr>State := ''pending''\<rparr>)) = Running"
    by (simp_all add: convertItem_def Let_def split_beta sampleItem_def normalizeStatus_samples)
  have p: "parseDuration sampleParse 63839664125999999999 ''2024-01-01T00:00:00Z'' [] =
      (''2m05s'', 63839664000000000000, False)"
    by (simp add: parseDuration_def sampleParse_def f w)
  have i: "Typename sampleItem = ''StatusContext''"
    "CompletedAt sampleItem = ''0001-01-01T00:00:00Z''"
    "ghCheckItem.StartedAt sampleItem = ''2024-01-01T00:00:00Z''"
    by (simp_all add: sampleItem_def)
  show ?thesis
    using statusContext_forced [of sampleItem id sampleParse 63839664125999999999]
      statusContext_forced [of "sampleItem\<lparr>State := ''pending''\<rparr>" id sampleParse
        63839664125999999999]
    by (simp add: Let_def s p i)
qed

section \<open>The selection index\<close>


lemma activeCount_selected [simp]: "activeCount (m\<lparr>selected := i\<rparr>) = activeCount m"
  by (simp add: activeCount_def)









section \<open>The session engine: filter, fetch results and scrolling\<close>

lemma dropSkipped_filter: "dropSkipped cs = filter (\<lambda>c. Status c \<noteq> Skipped) cs"
  by (induction cs) simp_all

lemma visibleRows_pos: "1 \<le> visibleRows s"
  by (simp add: visibleRows_def maxRows_def)

lemma adjustScroll_window:
  "scrollOff (adjustScroll s) \<le> selected (adjustScroll s)
   \<and> selected (adjustScroll s) \<le> scrollOff (adjustScroll s) + visibleRows (adjustScroll s) - 1"
  using visibleRows_pos [of s]
  by (simp add: adjustScroll_def visibleRows_def)

lemma adjustScroll_fields [simp]:
  "selected (adjustScroll s) = selected s" "mode (adjustScroll s) = mode s"
  "prData (adjustScroll s) = prData s" "err (adjustScroll s) = err s"
  "hideSkipped (adjustScroll s) = hideSkipped s" "height (adjustScroll s) = height s"
  "prs (adjustScroll s) = prs s"
  by (simp_all add: adjustScroll_def)

lemma setSelected_fields [simp]:
  "selected (setSelected s i) = i" "mode (setSelected s i) = mode s"
  "prData (setSelected s i) = prData s" "err (setSelected s i) = err s"
  "hideSkipped (setSelected s i) = hideSkipped s" "height (setSelected s i) = height s"
  "prs (setSelected s i) = prs s"
  by (simp_all add: setSelected_def)

lemma visibleRows_setSelected [simp]: "visibleRows (setSelected s i) = visibleRows s"
  by (simp add: visibleRows_def)

lemma filteredChecks_setSelected [simp]: "filteredChecks (setSelected s i) = filteredChecks s"
  by (simp add: filteredChecks_def split: option.splits)

lemma setSelected_window:
  assumes "mode s = modeViewing" and "i \<noteq> selected s"
  shows "scrollOff (setSelected s i) \<le> i \<and> i \<le> scrollOff (setSelected s i) + visibleRows s - 1"
proof -
  from assms have "setSelected s i = adjustScroll (s\<lparr>selected := i\<rparr>)"
    by (simp add: setSelected_def)
  with adjustScroll_window [of "s\<lparr>selected := i\<rparr>"] show ?thesis
    by (simp add: visibleRows_def)
qed

lemma setSelected_stays_zero:
  assumes "scrollOff s = 0" and "0 \<le> i" and "i < visibleRows s"
  shows "scrollOff (setSelected s i) = 0"
  using assms by (simp add: setSelected_def adjustScroll_def visibleRows_def)

text \<open>
  C4. The session carries a hide-skipped flag that both constructors set to true.
  \<open>filteredChecks\<close> is the full check list when the flag is false; otherwise it is
  the checks whose status is not Skipped, in their order, so its length is the number of
  such checks. A filter toggle in Viewing flips the flag and sets the selection index and
  the scroll offset to 0.
\<close>

theorem filter_toggle:
  "hideSkipped (newSession r n i) \<and> hideSkipped (newSelectSession i)
   \<and> (\<not> hideSkipped s \<longrightarrow>
        filteredChecks s = (case prData s of None \<Rightarrow> [] | Some d \<Rightarrow> Checks d))
   \<and> (hideSkipped s \<and> prData s = Some d \<longrightarrow>
        filteredChecks s = filter (\<lambda>c. Status c \<noteq> Skipped) (Checks d)
        \<and> subseq (filteredChecks s) (Checks d)
        \<and> length (filteredChecks s) = length (filter (\<lambda>c. Status c \<noteq> Skipped) (Checks d)))
   \<and> (mode s = modeViewing \<longrightarrow>
        hideSkipped (fst (step s ToggleFilter)) = (\<not> hideSkipped s)
        \<and> selected (fst (step s ToggleFilter)) = 0
        \<and> scrollOff (fst (step s ToggleFilter)) = 0)"
  by (auto simp: newSession_def newSelectSession_def filteredChecks_def dropSkipped_filter
      split: option.splits)

theorem filter_toggle_witness:
  "filteredChecks (filteredSession\<lparr>hideSkipped := False\<rparr>) = Checks mixedChecks
   \<and> map Name (filteredChecks filteredSession) = [''lint'', ''build'']
   \<and> \<not> hideSkipped (fst (step filteredSession ToggleFilter))
   \<and> selected (fst (step filteredSession ToggleFilter)) = 0
   \<and> scrollOff (fst (step filteredSession ToggleFilter)) = 0"
proof -
  have h: "\<not> hideSkipped (filteredSession\<lparr>hideSkipped := False\<rparr>)"
    "prData (filteredSession\<lparr>hideSkipped := False\<rparr>) = Some mixedChecks"
    "hideSkipped filteredSession" "prData filteredSession = Some mixedChecks"
    "mode filteredSession = modeViewing"
    by (simp_all add: filteredSession_def newSession_def)
  from filter_toggle [of _ _ _ "filteredSession\<lparr>hideSkipped := False\<rparr>"] h(1,2)
  have a: "filteredChecks (filteredSession\<lparr>hideSkipped := False\<rparr>) = Checks mixedChecks"
    by simp
  from filter_toggle [of _ _ _ filteredSession mixedChecks] h(3,4)
  have "filteredChecks filteredSession = filter (\<lambda>c. Status c \<noteq> Skipped) (Checks mixedChecks)"
    by blast
  then have b: "map Name (filteredChecks filteredSession) = [''lint'', ''build'']"
    by (simp add: mixedChecks_def passCheck_def)
  from filter_toggle [of _ _ _ filteredSession] h(3,5)
  have c: "\<not> hideSkipped (fst (step filteredSession ToggleFilter))
   \<and> selected (fst (step filteredSession ToggleFilter)) = 0
   \<and> scrollOff (fst (step filteredSession ToggleFilter)) = 0"
    by blast
  from a b c show ?thesis by blast
qed

text \<open>
  C5. A successful data fetch replaces the PRData, clears the error and clamps the
  selection index (not negative before) into 0 to count - 1 of the newly filtered
  check list, to 0 when that list is empty; an index of 5 against 2 filtered checks
  becomes 1. A failed fetch sets the error and leaves the PRData as it was.
\<close>

theorem fetch_data_result:
  "(0 \<le> selected s \<longrightarrow>
      prData (fst (step s (FetchDataResult (Inr d)))) = Some d
      \<and> err (fst (step s (FetchDataResult (Inr d)))) = None
      \<and> filteredChecks (fst (step s (FetchDataResult (Inr d))))
          = (if hideSkipped s then filter (\<lambda>c. Status c \<noteq> Skipped) (Checks d) else Checks d)
      \<and> (filteredChecks (fst (step s (FetchDataResult (Inr d)))) \<noteq> [] \<longrightarrow>
            0 \<le> selected (fst (step s (FetchDataResult (Inr d))))
          \<and> selected (fst (step s (FetchDataResult (Inr d))))
              \<le> int (length (filteredChecks (fst (step s (FetchDataResult (Inr d)))))) - 1
          \<and> selected (fst (step s (FetchDataResult (Inr d))))
              = min (selected s)
                  (int (length (filteredChecks (fst (step s (FetchDataResult (Inr d)))))) - 1))
      \<and> (filteredChecks (fst (step s (FetchDataResult (Inr d)))) = [] \<longrightarrow>
            selected (fst (step s (FetchDataResult (Inr d)))) = 0))
   \<and> prData (fst (step s (FetchDataResult (Inl e)))) = prData s
   \<and> err (fst (step s (FetchDataResult (Inl e)))) = Some e"
  by (simp add: Let_def filteredChecks_def dropSkipped_filter)


theorem fetch_data_result_witness:
  "selected (fst (step (filteredSession\<lparr>prData := None, selected := 5\<rparr>)
      (FetchDataResult (Inr mixedChecks)))) = 1
   \<and> prData (fst (step (filteredSession\<lparr>prData := None, selected := 5\<rparr>)
      (FetchDataResult (Inr mixedChecks)))) = Some mixedChecks
   \<and> err (fst (step (filteredSession\<lparr>prData := None, selected := 5\<rparr>)
      (FetchDataResult (Inr mixedChecks)))) = None
   \<and> selected (fst (step filteredSession
      (FetchDataResult (Inr (mixedChecks\<lparr>Checks := []\<rparr>))))) = 0
   \<and> prData (fst (step filteredSession (FetchDataResult (Inl ''gh CLI error'')))) =
      Some mixedChecks
   \<and> err (fst (step filteredSession (FetchDataResult (Inl ''gh CLI error'')))) =
      Some ''gh CLI error''"
proof -
  let ?s = "filteredSession\<lparr>prData := None, selected := 5\<rparr>"
  have h: "0 \<le> selected ?s" "selected ?s = 5" "hideSkipped ?s"
    "0 \<le> selected filteredSession" "hideSkipped filteredSession"
    "prData filteredSession = Some mixedChecks"
    by (simp_all add: filteredSession_def newSession_def)
  have f: "filter (\<lambda>c. Status c \<noteq> Skipped) (Checks mixedChecks) =
      [(passCheck ''lint'')\<lparr>Status := Fail\<rparr>, passCheck ''build'']"
    by (simp add: mixedChecks_def passCheck_def)
  from fetch_data_result [of ?s mixedChecks] h(1)
  have a: "prData (fst (step ?s (FetchDataResult (Inr mixedChecks)))) = Some mixedChecks"
    "err (fst (step ?s (FetchDataResult (Inr mixedChecks)))) = None"
    "selected (fst (step ?s (FetchDataResult (Inr mixedChecks)))) = 1"
    by (simp_all add: h(2,3) f)
  from fetch_data_result [of filteredSession "mixedChecks\<lparr>Checks := []\<rparr>"] h(4)
  have b: "selected (fst (step filteredSession
      (FetchDataResult (Inr (mixedChecks\<lparr>Checks := []\<rparr>))))) = 0"
    by (simp add: h(5))
  from fetch_data_result [of filteredSession _ "''gh CLI error''"] h(6)
  have c: "prData (fst (step filteredSession (FetchDataResult (Inl ''gh CLI error'')))) =
      Some mixedChecks"
    "err (fst (step filteredSession (FetchDataResult (Inl ''gh CLI error'')))) =
      Some ''gh CLI error''"
    by simp_all
  from a b c show ?thesis by blast
qed

text \<open>
  C3, as stated, fails: after the viewport grows, a move of the selection leaves the
  scroll offset where it was. With six checks, 22 visible rows and the index moved from
  5 to 4, the offset is still 2.
\<close>

theorem scroll_offset_counterexample:
  "mode (fst (step staleScroll MoveUp)) = modeViewing
   \<and> selected staleScroll = 5
   \<and> selected (fst (step staleScroll MoveUp)) = 4
   \<and> int (length (filteredChecks (fst (step staleScroll MoveUp)))) = 6
   \<and> visibleRows (fst (step staleScroll MoveUp)) = 22
   \<and> scrollOff (fst (step staleScroll MoveUp)) = 2"
  by code_simp

text \<open>
  C3, amended. After every change of the selection index that ends in Viewing, the scroll
  offset is at most the index and the index is at most offset + visibleRows - 1, where
  visibleRows is the height less 8, at least 1. An offset that was 0 before the change
  stays 0 when the new index is within the list and the list has at most visibleRows
  rows.
\<close>

theorem scroll_window:
  "(mode (fst (step s ev)) = modeViewing \<and> selected (fst (step s ev)) \<noteq> selected s \<longrightarrow>
      scrollOff (fst (step s ev)) \<le> selected (fst (step s ev))
      \<and> selected (fst (step s ev))
          \<le> scrollOff (fst (step s ev)) + visibleRows (fst (step s ev)) - 1
      \<and> (scrollOff s = 0 \<and> 0 \<le> selected (fst (step s ev))
           \<and> selected (fst (step s ev)) < int (length (filteredChecks (fst (step s ev))))
           \<and> int (length (filteredChecks (fst (step s ev)))) \<le> visibleRows (fst (step s ev))
          \<longrightarrow> scrollOff (fst (step s ev)) = 0))
   \<and> visibleRows s = (if height s - 8 < 1 then 1 else height s - 8)"
proof -
  have set: "scrollOff (setSelected t i) \<le> i
      \<and> i \<le> scrollOff (setSelected t i) + visibleRows (setSelected t i) - 1
      \<and> (scrollOff t = 0 \<and> 0 \<le> i \<and> i < visibleRows (setSelected t i)
          \<longrightarrow> scrollOff (setSelected t i) = 0)"
    if "mode t = modeViewing" "i \<noteq> selected t" for t i
    using setSelected_window [OF that] setSelected_stays_zero [of t i] by simp
  have zero: "scrollOff t \<le> selected t \<and> selected t \<le> scrollOff t + visibleRows t - 1"
    if "scrollOff t = 0" "selected t = 0" for t
    using that visibleRows_pos [of t] by simp
  have main: "scrollOff (fst (step s ev)) \<le> selected (fst (step s ev))
      \<and> selected (fst (step s ev))
          \<le> scrollOff (fst (step s ev)) + visibleRows (fst (step s ev)) - 1
      \<and> (scrollOff s = 0 \<and> 0 \<le> selected (fst (step s ev))
           \<and> selected (fst (step s ev)) < visibleRows (fst (step s ev))
          \<longrightarrow> scrollOff (fst (step s ev)) = 0)"
    if v: "mode (fst (step s ev)) = modeViewing"
      and c: "selected (fst (step s ev)) \<noteq> selected s"
  proof (cases ev)
    case MoveDown
    with v c show ?thesis
      using set [of s "selected s + 1"] by (auto split: if_splits)
  next
    case MoveUp
    with v c show ?thesis
      using set [of s "selected s - 1"] by (auto split: if_splits)
  next
    case Enter
    with v c show ?thesis
      using zero [of "fst (step s ev)"]
      by (auto simp: Let_def split: if_splits)
  next
    case GoBack
    with v c show ?thesis by (auto split: if_splits)
  next
    case ManualRefresh
    with v c show ?thesis by (auto split: if_splits)
  next
    case ToggleFilter
    with v c show ?thesis
      using zero [of "fst (step s ev)"] by (auto split: if_splits)
  next
    case TimerTick
    with v c show ?thesis by (auto split: if_splits)
  next
    case (FetchListResult r)
    show ?thesis
    proof (cases r)
      case (Inl e)
      with FetchListResult c show ?thesis by simp
    next
      case (Inr ps)
      with FetchListResult v c show ?thesis
        using set [of "s\<lparr>loading := False, prs := ps, err := None\<rparr>" 0]
        by (simp add: Let_def)
    qed
  next
    case (FetchDataResult r)
    show ?thesis
    proof (cases r)
      case (Inl e)
      with FetchDataResult c show ?thesis by simp
    next
      case (Inr d)
      with FetchDataResult v c show ?thesis
        using set [of "s\<lparr>prData := Some d, err := None\<rparr>" 0]
          set [of "s\<lparr>prData := Some d, err := None\<rparr>"
            "int (length (filteredChecks (s\<lparr>prData := Some d, err := None\<rparr>))) - 1"]
        by (simp add: Let_def split: if_splits)
    qed
  next
    case (ViewportResize w h)
    with c show ?thesis by simp
  next
    case Terminate
    with c show ?thesis by simp
  qed
  from main show ?thesis
    by (auto simp: visibleRows_def maxRows_def)
qed


theorem scroll_window_witness:
  "scrollOff (fst (step windowSession MoveDown)) \<le> selected (fst (step windowSession MoveDown))
   \<and> selected (fst (step windowSession MoveDown))
      \<le> scrollOff (fst (step windowSession MoveDown))
        + visibleRows (fst (step windowSession MoveDown)) - 1
   \<and> scrollOff (fst (step fittingSession MoveDown)) = 0"
proof -
  have h: "mode (fst (step windowSession MoveDown)) = modeViewing
      \<and> selected (fst (step windowSession MoveDown)) \<noteq> selected windowSession"
    by code_simp
  have k: "mode (fst (step fittingSession MoveDown)) = modeViewing
      \<and> selected (fst (step fittingSession MoveDown)) \<noteq> selected fittingSession"
    "scrollOff fittingSession = 0 \<and> 0 \<le> selected (fst (step fittingSession MoveDown))
      \<and> selected (fst (step fittingSession MoveDown))
          < int (length (filteredChecks (fst (step fittingSession MoveDown))))
      \<and> int (length (filteredChecks (fst (step fittingSession MoveDown))))
          \<le> visibleRows (fst (step fittingSession MoveDown))"
    by code_simp+
  from scroll_window [of windowSession MoveDown] h
  have a: "scrollOff (fst (step windowSession MoveDown))
      \<le> selected (fst (step windowSession MoveDown))
    \<and> selected (fst (step windowSession MoveDown))
      \<le> scrollOff (fst (step windowSession MoveDown))
        + visibleRows (fst (step windowSession MoveDown)) - 1"
    by blast
  from scroll_window [of fittingSession MoveDown] k
  have b: "scrollOff (fst (step fittingSession MoveDown)) = 0"
    by blast
  from a b show ?thesis by blast
qed

section \<open>The order of the checks\<close>











end
